theory Spec2Isabelle
  imports Complex_Main "HOL-Library.Log_Nat" "HOL-Library.Product_Lexorder"
    "HOL-Library.Multiset" "HOL-Library.AList"
begin

section \<open>Text: the string methods the scripts call\<close>

text \<open>
  The catalogue is ASCII text, and a Python \<open>str\<close> is modelled as a \<open>string\<close> of
  ASCII characters. On ASCII, \<open>str.isspace\<close> holds for the codes 9 to 13 and 28 to 32,
  \<open>str.isupper\<close> of one character holds for \<open>A\<close> to \<open>Z\<close>, and \<open>str.lower\<close> maps
  \<open>A\<close> to \<open>Z\<close> onto \<open>a\<close> to \<open>z\<close> and leaves every other character alone.
\<close>

definition isspace :: "char \<Rightarrow> bool" where
  "isspace c = (let n = (of_char c :: nat) in (9 \<le> n \<and> n \<le> 13) \<or> (28 \<le> n \<and> n \<le> 32))"

definition isupper :: "char \<Rightarrow> bool" where
  "isupper c = (let n = (of_char c :: nat) in 65 \<le> n \<and> n \<le> 90)"

definition isdigit :: "char \<Rightarrow> bool" where
  "isdigit c = (let n = (of_char c :: nat) in 48 \<le> n \<and> n \<le> 57)"

definition lower_char :: "char \<Rightarrow> char" where
  "lower_char c = (if isupper c then char_of ((of_char c :: nat) + 32) else c)"

definition lower :: "string \<Rightarrow> string" where
  "lower s = map lower_char s"

definition strip :: "string \<Rightarrow> string" where
  "strip s = rev (dropWhile isspace (rev (dropWhile isspace s)))"

definition startswith :: "string \<Rightarrow> string \<Rightarrow> bool" where
  "startswith s p = (take (length p) s = p)"

section \<open>Spectral class\<close>

text \<open>
  \<open>first_upper\<close> is the loop \<^verbatim>\<open>for char in remaining: if char.isupper(): return char\<close>;
  running off the end of the loop reaches the final \<^verbatim>\<open>return None\<close>.
\<close>

fun first_upper :: "string \<Rightarrow> char option" where
  "first_upper [] = None"
| "first_upper (c # cs) = (if isupper c then Some c else first_upper cs)"

definition extract_spectral_class :: "string \<Rightarrow> char option" where
  "extract_spectral_class spect0 =
     (if spect0 = [] \<or> strip spect0 = [] then None
      else
        let spect = strip spect0 in
        if startswith (lower spect) ''sd'' \<and> length spect > 2 then first_upper (drop 2 spect)
        else if startswith (lower spect) ''d'' \<and> length spect > 1 then first_upper (drop 1 spect)
        else first_upper spect)"

text \<open>
  The rule as the specification words it: the prefixes are the two literal texts \<open>sd\<close> and
  \<open>d\<close>, and the answer is the first uppercase letter of what follows them.
\<close>

definition spec_strip_prefix :: "string \<Rightarrow> string" where
  "spec_strip_prefix s =
     (if startswith s ''sd'' then drop 2 s else if startswith s ''d'' then drop 1 s else s)"

definition spec_spectral_class :: "string \<Rightarrow> char option" where
  "spec_spectral_class s = List.find isupper (spec_strip_prefix (strip s))"

text \<open>
  What the code removes, read off the stripped text itself: an \<open>s\<close> and a \<open>d\<close> in either
  case when a third character follows them, otherwise a \<open>d\<close> in either case when a second
  character follows it, otherwise nothing.
\<close>

fun drop_known_prefix :: "string \<Rightarrow> string" where
  "drop_known_prefix (a # b # c # r) =
     (if (a = CHR ''s'' \<or> a = CHR ''S'') \<and> (b = CHR ''d'' \<or> b = CHR ''D'') then c # r
      else if a = CHR ''d'' \<or> a = CHR ''D'' then b # c # r
      else a # b # c # r)"
| "drop_known_prefix [a, b] = (if a = CHR ''d'' \<or> a = CHR ''D'' then [b] else [a, b])"
| "drop_known_prefix t = t"

section \<open>Numbers: \<open>int()\<close>, \<open>float()\<close> and the comparison of floats\<close>

text \<open>
  A Python float is an IEEE double: minus infinity, a finite value (a rational; \<open>Fin 0\<close> is
  \<open>+0.0\<close>), the negative zero, plus infinity, or NaN.
\<close>

datatype pyfloat = NInf | Fin rat | NegZero | PInf | NaN

text \<open>
  \<open>digitpart\<close> is the grammar's \<^verbatim>\<open>digit (["_"] digit)*\<close>: it accepts the whole text or
  nothing, and returns the digits without the underscores.
\<close>

fun digitpart :: "string \<Rightarrow> string option" where
  "digitpart [] = None"
| "digitpart [c] = (if isdigit c then Some [c] else None)"
| "digitpart (c # d # cs) =
     (if isdigit c
      then map_option (Cons c) (if d = CHR ''_'' then digitpart cs else digitpart (d # cs))
      else None)"

definition digits_val :: "string \<Rightarrow> int" where
  "digits_val ds = foldl (\<lambda>a c. 10 * a + ((of_char c :: int) - 48)) 0 ds"

text \<open>An optional sign, then a digit part: \<open>(negative, digits)\<close>.\<close>

definition signed_digitpart :: "string \<Rightarrow> (bool \<times> string) option" where
  "signed_digitpart t =
     (case t of
        [] \<Rightarrow> None
      | c # cs \<Rightarrow>
          if c = CHR ''-'' then map_option (Pair True) (digitpart cs)
          else if c = CHR ''+'' then map_option (Pair False) (digitpart cs)
          else map_option (Pair False) (digitpart t))"

definition signed_val :: "bool \<times> string \<Rightarrow> int" where
  "signed_val p = (if fst p then - digits_val (snd p) else digits_val (snd p))"

text \<open>
  \<open>int(s)\<close> for a text \<open>s\<close>: \<open>None\<close> is the \<open>ValueError\<close>. CPython refuses a literal of
  more than 4300 digits with a \<open>ValueError\<close> as well.
\<close>

definition py_int :: "string \<Rightarrow> int option" where
  "py_int s =
     (case signed_digitpart (strip s) of
        None \<Rightarrow> None
      | Some p \<Rightarrow> if length (snd p) > 4300 then None else Some (signed_val p))"

text \<open>
  Rounding a non-negative rational to the nearest double, ties to even. \<open>binade a\<close> is the
  \<open>k\<close> with \<open>2\<^sup>k \<le> a < 2\<^sup>k\<^sup>+\<^sup>1\<close>; the doubles of a binade are the multiples of
  \<open>2\<^sup>k\<^sup>-\<^sup>5\<^sup>2\<close>, the subnormal ones the multiples of \<open>2\<^sup>-\<^sup>1\<^sup>0\<^sup>7\<^sup>4\<close>, and a rounded value
  that reaches the binade 1024 overflows to infinity.
\<close>

definition pow2 :: "int \<Rightarrow> rat" where
  "pow2 k = (if 0 \<le> k then 2 ^ nat k else 1 / 2 ^ nat (- k))"

definition round_half_even :: "rat \<Rightarrow> int" where
  "round_half_even r =
     (let f = \<lfloor>r\<rfloor>; d = r - of_int f
      in if d < 1 / 2 then f else if 1 / 2 < d then f + 1 else if even f then f else f + 1)"

definition binade :: "rat \<Rightarrow> int" where
  "binade a =
     (let k = bitlen (fst (quotient_of a)) - bitlen (snd (quotient_of a))
      in if pow2 k \<le> a then k else k - 1)"

definition round_double :: "rat \<Rightarrow> pyfloat" where
  "round_double a =
     (if a = 0 then Fin 0
      else
        let u = max (binade a) (- 1022) - 52;
            v = of_int (round_half_even (a / pow2 u)) * pow2 u
        in if 1024 \<le> binade v then PInf else Fin v)"

fun float_neg :: "pyfloat \<Rightarrow> pyfloat" where
  "float_neg NInf = PInf"
| "float_neg (Fin q) = (if q = 0 then NegZero else Fin (- q))"
| "float_neg NegZero = Fin 0"
| "float_neg PInf = NInf"
| "float_neg NaN = NaN"

text \<open>\<open>split_on p s\<close> cuts \<open>s\<close> at the first character that satisfies \<open>p\<close>.\<close>

definition split_on :: "(char \<Rightarrow> bool) \<Rightarrow> string \<Rightarrow> string \<times> string option" where
  "split_on p s =
     (takeWhile (\<lambda>c. \<not> p c) s,
      case dropWhile (\<lambda>c. \<not> p c) s of [] \<Rightarrow> None | _ # r \<Rightarrow> Some r)"

text \<open>
  The mantissa \<^verbatim>\<open>[digitpart] "." digitpart | digitpart ["."]\<close>: its digits and the number
  of them after the point.
\<close>

definition mantissa :: "string \<Rightarrow> (string \<times> nat) option" where
  "mantissa m =
     (case split_on (\<lambda>c. c = CHR ''.'') m of
        (ip, None) \<Rightarrow> map_option (\<lambda>ds. (ds, 0)) (digitpart ip)
      | (ip, Some fp) \<Rightarrow>
          if ip = [] then map_option (\<lambda>fs. (fs, length fs)) (digitpart fp)
          else (case digitpart ip of
                  None \<Rightarrow> None
                | Some ds \<Rightarrow>
                    if fp = [] then Some (ds, 0)
                    else map_option (\<lambda>fs. (ds @ fs, length fs)) (digitpart fp)))"

definition floatnumber :: "string \<Rightarrow> rat option" where
  "floatnumber t =
     (case split_on (\<lambda>c. c = CHR ''e'' \<or> c = CHR ''E'') t of
        (m, ex) \<Rightarrow>
          (case (mantissa m, case ex of None \<Rightarrow> Some (False, ''0'') | Some e \<Rightarrow> signed_digitpart e) of
             (Some (ds, k), Some p) \<Rightarrow>
               (let e = signed_val p - int k
                in Some (if 0 \<le> e then of_int (digits_val ds) * 10 ^ nat e
                         else of_int (digits_val ds) / 10 ^ nat (- e)))
           | _ \<Rightarrow> None))"

definition absfloatvalue :: "string \<Rightarrow> pyfloat option" where
  "absfloatvalue t =
     (if lower t = ''inf'' \<or> lower t = ''infinity'' then Some PInf
      else if lower t = ''nan'' then Some NaN
      else map_option round_double (floatnumber t))"

text \<open>\<open>float(s)\<close> for a text \<open>s\<close>: \<open>None\<close> is the \<open>ValueError\<close>.\<close>

definition py_float :: "string \<Rightarrow> pyfloat option" where
  "py_float s =
     (case strip s of
        [] \<Rightarrow> None
      | c # cs \<Rightarrow>
          if c = CHR ''-'' then map_option float_neg (absfloatvalue cs)
          else if c = CHR ''+'' then absfloatvalue cs
          else absfloatvalue (c # cs))"

text \<open>
  Python's \<open><\<close>, \<open><=\<close> and \<open>==\<close> on floats. Both zeros are equal, and every comparison
  with NaN is false. \<open>ord_key\<close> places the other values on a line.
\<close>

fun ord_key :: "pyfloat \<Rightarrow> nat \<times> rat" where
  "ord_key NInf = (0, 0)"
| "ord_key (Fin q) = (1, q)"
| "ord_key NegZero = (1, 0)"
| "ord_key PInf = (2, 0)"
| "ord_key NaN = (3, 0)"

definition float_lt :: "pyfloat \<Rightarrow> pyfloat \<Rightarrow> bool" where
  "float_lt a b = (a \<noteq> NaN \<and> b \<noteq> NaN \<and> ord_key a < ord_key b)"



text \<open>
  \<open>list.sort(key=...)\<close> is a stable sort that compares keys with \<open><\<close> only. Where \<open><\<close>
  orders the keys totally (no NaN among them) every such sort returns the same list, the
  one this insertion sort computes: an element goes in front of the first element whose
  key is not smaller than its own.
\<close>

fun insort_lt :: "('a \<Rightarrow> pyfloat) \<Rightarrow> 'a \<Rightarrow> 'a list \<Rightarrow> 'a list" where
  "insort_lt key a [] = [a]"
| "insort_lt key a (b # bs) =
     (if float_lt (key b) (key a) then b # insort_lt key a bs else a # b # bs)"

definition list_sort :: "('a \<Rightarrow> pyfloat) \<Rightarrow> 'a list \<Rightarrow> 'a list" where
  "list_sort key xs = foldr (insort_lt key) xs []"

section \<open>Running a script: printed lines and exceptions\<close>

datatype exc =
    ValueError | TypeError | KeyError | IndexError | UnboundLocalError
  | OSError | SqliteError | SystemExit nat

text \<open>\<open>except Exception\<close> catches every exception except \<open>SystemExit\<close>.\<close>

fun is_Exception :: "exc \<Rightarrow> bool" where
  "is_Exception (SystemExit n) = False"
| "is_Exception e = True"

datatype msg =
    Warn_invalid_data
  | Warn_no_h3 "int option"
  | Warn_no_coordinates "int option"
  | Warn_no_id nat
  | Warn_invalid_row nat
  | Error_reading_csv
  | Error_no_valid_stars
  | Error_no_h3_stars
  | Error_creating_database
  | Error_missing_file
  | Error_missing_columns
  | Error_sqlite
  | Error_other
  | Error_exporting
  | Error_importing
  | Warn_overwrite
  | Warn_too_few_stars
  | No_remaining_stars
  | Success

text \<open>
  Of the lines a script prints, the warnings, the error messages and the final report of
  success are kept; the progress lines are left out.
  A run prints lines and then either raises or returns. The exit status of a script whose
  \<open>main\<close> ends that way: 0 when it returns, the argument of \<open>sys.exit\<close>, and 1 when an
  exception reaches the top (the interpreter prints the traceback).
\<close>

type_synonym 'a run = "msg list \<times> (exc + 'a)"

definition bind :: "'a run \<Rightarrow> ('a \<Rightarrow> 'b run) \<Rightarrow> 'b run" where
  "bind m f =
     (case m of
        (out, Inl e) \<Rightarrow> (out, Inl e)
      | (out, Inr a) \<Rightarrow> (case f a of (out', r) \<Rightarrow> (out @ out', r)))"


text \<open>
  \<^verbatim>\<open>try: ... except Exception as e: print(message); sys.exit(1)\<close> around a run.
\<close>

definition except_exit :: "msg \<Rightarrow> 'a run \<Rightarrow> 'a run" where
  "except_exit m r =
     (case r of
        (out, Inl e) \<Rightarrow> if is_Exception e then (out @ [m], Inl (SystemExit 1)) else (out, Inl e)
      | (out, Inr a) \<Rightarrow> (out, Inr a))"

text \<open>
  \<open>validate_csv_file\<close>: \<open>file_exists\<close> is \<open>os.path.exists\<close>, and \<open>header\<close> is what opening
  the file and reading \<open>reader.fieldnames\<close> gives, the column names or the exception raised
  (an empty file has no field names, and \<open>set(None)\<close> raises \<open>TypeError\<close>). The \<open>sys.exit\<close>
  for a missing column is inside the \<open>try\<close> and passes the handler.
\<close>

definition validate_csv_file :: "bool \<Rightarrow> exc + string list \<Rightarrow> string list \<Rightarrow> string list run" where
  "validate_csv_file file_exists header required_columns =
     (if \<not> file_exists then ([Error_missing_file], Inl (SystemExit 1))
      else except_exit Error_reading_csv
        (case header of
           Inl e \<Rightarrow> ([], Inl e)
         | Inr fieldnames \<Rightarrow>
             if set required_columns \<subseteq> set fieldnames then ([], Inr fieldnames)
             else ([Error_missing_columns], Inl (SystemExit 1))))"

definition required_columns :: "string list" where
  "required_columns = [''id'', ''mag'', ''x'', ''y'', ''z'', ''spect'']"

section \<open>Rows and star records\<close>

text \<open>
  A row of \<open>csv.DictReader\<close> gives a text for every column of the header; a field the line
  does not have reads as empty (the code treats \<open>None\<close> and the empty text alike). Reading
  the file yields rows until it ends or an exception stops it.
\<close>

type_synonym csv_row = "string \<Rightarrow> string"

datatype csv_event = Row csv_row | ReadError exc

record star =
  star_id :: "int option"
  star_mag :: pyfloat
  star_x :: "pyfloat option"
  star_y :: "pyfloat option"
  star_z :: "pyfloat option"
  spect_class :: "char option"
  h3_cell :: "(nat \<times> string) option"

text \<open>
  \<^verbatim>\<open>int(v) if v else None\<close>, \<^verbatim>\<open>float(v) if v else None\<close> and
  \<^verbatim>\<open>float(v) if v else float('inf')\<close>; the outer \<open>None\<close> is the \<open>ValueError\<close>.
\<close>

definition int_or_none :: "string \<Rightarrow> int option option" where
  "int_or_none v = (if v \<noteq> [] then map_option Some (py_int v) else Some None)"

definition float_or_none :: "string \<Rightarrow> pyfloat option option" where
  "float_or_none v = (if v \<noteq> [] then map_option Some (py_float v) else Some None)"

definition float_or_inf :: "string \<Rightarrow> pyfloat option" where
  "float_or_inf v = (if v \<noteq> [] then py_float v else Some PInf)"

text \<open>The dictionary display that builds \<open>star\<close>, evaluated field by field in its order.\<close>

definition parse_star :: "csv_row \<Rightarrow> exc + star" where
  "parse_star row =
     (case int_or_none (row ''id'') of None \<Rightarrow> Inl ValueError | Some i \<Rightarrow>
     (case float_or_inf (row ''mag'') of None \<Rightarrow> Inl ValueError | Some m \<Rightarrow>
     (case float_or_none (row ''x'') of None \<Rightarrow> Inl ValueError | Some a \<Rightarrow>
     (case float_or_none (row ''y'') of None \<Rightarrow> Inl ValueError | Some b \<Rightarrow>
     (case float_or_none (row ''z'') of None \<Rightarrow> Inl ValueError | Some c \<Rightarrow>
        Inr \<lparr>star_id = i, star_mag = m, star_x = a, star_y = b, star_z = c,
             spect_class = extract_spectral_class (row ''spect''), h3_cell = None\<rparr>)))))"

text \<open>\<^verbatim>\<open>except (ValueError, TypeError)\<close> in the loop over the rows: warn and go on.\<close>

definition skip_invalid :: "exc \<Rightarrow> star option run" where
  "skip_invalid e =
     (if e = ValueError \<or> e = TypeError then ([Warn_invalid_data], Inr None) else ([], Inl e))"

text \<open>
  The conversion to latitude and longitude is floating-point trigonometry and the cell is
  computed by the H3 library, so both are parameters: \<open>conv x y z\<close> raises, or returns
  \<open>(None, None)\<close>, or a latitude and a longitude; \<open>cell lat lon res\<close> is \<open>None\<close> when
  \<open>h3.latlng_to_cell\<close> raises.
\<close>

type_synonym conv = "pyfloat \<Rightarrow> pyfloat \<Rightarrow> pyfloat \<Rightarrow> exc + (pyfloat \<times> pyfloat) option"
type_synonym cell = "pyfloat \<Rightarrow> pyfloat \<Rightarrow> nat \<Rightarrow> string option"

section \<open>The brightest-N script\<close>

text \<open>The body of the loop for one row: what it prints, and the star it appends if any.\<close>

definition brightest_row :: "conv \<Rightarrow> cell \<Rightarrow> csv_row \<Rightarrow> star option run" where
  "brightest_row cartesian_to_lat_lon latlng_to_cell row =
     (case parse_star row of
        Inl e \<Rightarrow> skip_invalid e
      | Inr s \<Rightarrow>
          (case (star_x s, star_y s, star_z s) of
             (Some a, Some b, Some c) \<Rightarrow>
               (case cartesian_to_lat_lon a b c of
                  Inl e \<Rightarrow> skip_invalid e
                | Inr None \<Rightarrow> ([Warn_no_coordinates (star_id s)], Inr None)
                | Inr (Some (lat, lon)) \<Rightarrow>
                    (case latlng_to_cell lat lon 0 of
                       None \<Rightarrow> ([Warn_no_h3 (star_id s)], Inr None)
                     | Some h \<Rightarrow> ([], Inr (Some (s\<lparr>h3_cell := Some (0, h)\<rparr>)))))
           | _ \<Rightarrow> ([], Inr None)))"

text \<open>The loop over the rows of the file, for a given loop body.\<close>

fun read_rows :: "(csv_row \<Rightarrow> 'a option run) \<Rightarrow> csv_event list \<Rightarrow> 'a list run" where
  "read_rows body [] = ([], Inr [])"
| "read_rows body (ReadError e # rest) = ([], Inl e)"
| "read_rows body (Row r # rest) =
     bind (body r) (\<lambda>s. bind (read_rows body rest) (\<lambda>stars.
       ([], Inr ((case s of None \<Rightarrow> [] | Some a \<Rightarrow> [a]) @ stars))))"

text \<open>\<open>xs[:n]\<close>: a negative \<open>n\<close> counts from the end.\<close>

definition slice_to :: "'a list \<Rightarrow> int \<Rightarrow> 'a list" where
  "slice_to xs n = (if 0 \<le> n then take (nat n) xs else take (nat (int (length xs) + n)) xs)"

definition brightest_read_stars :: "conv \<Rightarrow> cell \<Rightarrow> csv_event list \<Rightarrow> star list run" where
  "brightest_read_stars cartesian_to_lat_lon latlng_to_cell file =
     except_exit Error_reading_csv
       (read_rows (brightest_row cartesian_to_lat_lon latlng_to_cell) file)"

definition brightest_read_and_sort_stars ::
    "conv \<Rightarrow> cell \<Rightarrow> csv_event list \<Rightarrow> int \<Rightarrow> star list run" where
  "brightest_read_and_sort_stars cartesian_to_lat_lon latlng_to_cell file brightest_n =
     bind (brightest_read_stars cartesian_to_lat_lon latlng_to_cell file)
       (\<lambda>stars. ([], Inr (slice_to (list_sort star_mag stars) brightest_n)))"

section \<open>The H3 script\<close>

definition h3_row :: "csv_row \<Rightarrow> star option run" where
  "h3_row row =
     (case parse_star row of
        Inl e \<Rightarrow> skip_invalid e
      | Inr s \<Rightarrow>
          (case (star_x s, star_y s, star_z s) of
             (Some a, Some b, Some c) \<Rightarrow> ([], Inr (Some s))
           | _ \<Rightarrow> ([], Inr None)))"

definition h3_read_and_sort_stars :: "csv_event list \<Rightarrow> star list run" where
  "h3_read_and_sort_stars file =
     bind (except_exit Error_reading_csv (read_rows h3_row file))
       (\<lambda>stars. ([], Inr (list_sort star_mag stars)))"

text \<open>\<open>stars[i]\<close>: a negative index counts from the end, an index out of range raises.\<close>

definition index :: "'a list \<Rightarrow> int \<Rightarrow> exc + 'a" where
  "index xs i =
     (if 0 \<le> i \<and> i < int (length xs) then Inr (xs ! nat i)
      else if i < 0 \<and> - int (length xs) \<le> i then Inr (xs ! nat (int (length xs) + i))
      else Inl IndexError)"

text \<open>The body of the loop of \<open>process_stars_with_h3\<close> for the index \<open>i\<close>.\<close>

definition process_star :: "conv \<Rightarrow> cell \<Rightarrow> nat \<Rightarrow> star \<Rightarrow> star option run" where
  "process_star cartesian_to_lat_lon latlng_to_cell h3_resolution s =
     (case (star_x s, star_y s, star_z s) of
        (Some a, Some b, Some c) \<Rightarrow>
          (case cartesian_to_lat_lon a b c of
             Inl e \<Rightarrow> ([], Inl e)
           | Inr None \<Rightarrow> ([Warn_no_coordinates (star_id s)], Inr None)
           | Inr (Some (lat, lon)) \<Rightarrow>
               (case latlng_to_cell lat lon h3_resolution of
                  None \<Rightarrow> ([Warn_no_h3 (star_id s)], Inr None)
                | Some h \<Rightarrow> ([], Inr (Some (s\<lparr>h3_cell := Some (h3_resolution, h)\<rparr>)))))
      | _ \<Rightarrow> ([], Inl TypeError))"

fun process_indices ::
    "conv \<Rightarrow> cell \<Rightarrow> nat \<Rightarrow> star list \<Rightarrow> int list \<Rightarrow> star list run" where
  "process_indices cv cl res stars [] = ([], Inr [])"
| "process_indices cv cl res stars (i # is) =
     bind ([], index stars i) (\<lambda>s.
     bind (process_star cv cl res s) (\<lambda>p.
     bind (process_indices cv cl res stars is) (\<lambda>ps.
       ([], Inr ((case p of None \<Rightarrow> [] | Some a \<Rightarrow> [a]) @ ps)))))"

definition process_stars_with_h3 ::
    "conv \<Rightarrow> cell \<Rightarrow> star list \<Rightarrow> int \<Rightarrow> int \<Rightarrow> nat \<Rightarrow> star list run" where
  "process_stars_with_h3 cv cl stars start_index count' h3_resolution =
     (let end_index = min (start_index + count') (int (length stars))
      in process_indices cv cl h3_resolution stars [start_index ..  end_index - 1])"

text \<open>
  The part of \<open>main\<close> that routes the sorted stars to the three tables; the third list is
  \<open>None\<close> when the rest is not asked for or is empty.
\<close>

definition h3_route ::
    "conv \<Rightarrow> cell \<Rightarrow> star list \<Rightarrow> int \<Rightarrow> int \<Rightarrow> int \<Rightarrow> bool
      \<Rightarrow> (star list \<times> star list \<times> star list option) run" where
  "h3_route cv cl all_stars skip lvl_0_count lvl_1_count include_rest =
     (if all_stars = [] then ([Error_no_valid_stars], Inl (SystemExit 1))
      else
        let total_stars = int (length all_stars) in
        bind (if total_stars < skip + lvl_0_count + lvl_1_count
              then ([Warn_too_few_stars], Inr ()) else ([], Inr ())) (\<lambda>_.
        bind (process_stars_with_h3 cv cl all_stars skip lvl_0_count 0) (\<lambda>stars_h3_0.
        bind (process_stars_with_h3 cv cl all_stars (skip + lvl_0_count) lvl_1_count 1)
          (\<lambda>stars_h3_1.
        bind (if include_rest
              then (let lvl_2_start = skip + lvl_0_count + lvl_1_count;
                        remaining_count = total_stars - lvl_2_start
                    in if 0 < remaining_count
                       then bind (process_stars_with_h3 cv cl all_stars lvl_2_start
                                    remaining_count 2) (\<lambda>r. ([], Inr (Some r)))
                       else ([No_remaining_stars], Inr None))
              else ([], Inr None)) (\<lambda>stars_h3_2.
          if stars_h3_0 = [] \<and> stars_h3_1 = [] \<and> (stars_h3_2 = None \<or> stars_h3_2 = Some [])
          then ([Error_no_h3_stars], Inl (SystemExit 1))
          else ([], Inr (stars_h3_0, stars_h3_1, stars_h3_2)))))))"

text \<open>
  The database block of the three catalogue scripts is
  \<^verbatim>\<open>try: connect, drop, create, insert ..., commit, close, print
  except Exception as e: print(...); sys.exit(1)\<close>.
  \<open>db_fail\<close> is the exception that a database call of the block raises, if one does; the
  block returns what it has written to the tables.
\<close>

definition db_block :: "exc option \<Rightarrow> 'a \<Rightarrow> 'a run" where
  "db_block db_fail written =
     except_exit Error_creating_database
       (case db_fail of Some e \<Rightarrow> ([], Inl e) | None \<Rightarrow> ([Success], Inr written))"

definition brightest_create_sqlite_database :: "exc option \<Rightarrow> star list \<Rightarrow> star list run" where
  "brightest_create_sqlite_database db_fail brightest_stars = db_block db_fail brightest_stars"

definition brightest_main ::
    "conv \<Rightarrow> cell \<Rightarrow> exc option \<Rightarrow> bool \<Rightarrow> exc + string list \<Rightarrow> csv_event list \<Rightarrow> int
      \<Rightarrow> star list run" where
  "brightest_main cv cl db_fail file_exists header file brightest_n =
     bind (validate_csv_file file_exists header required_columns) (\<lambda>_.
     bind (brightest_read_and_sort_stars cv cl file brightest_n) (\<lambda>brightest_stars.
       if brightest_stars = [] then ([Error_no_valid_stars], Inl (SystemExit 1))
       else brightest_create_sqlite_database db_fail brightest_stars))"

text \<open>The third table of the H3 script is created only for a non-empty third list.\<close>

definition h3_create_sqlite_database ::
    "exc option \<Rightarrow> star list \<Rightarrow> star list \<Rightarrow> star list option
      \<Rightarrow> (star list \<times> star list \<times> star list option) run" where
  "h3_create_sqlite_database db_fail stars_h3_0 stars_h3_1 stars_h3_2 =
     db_block db_fail
       (stars_h3_0, stars_h3_1,
        if stars_h3_2 = None \<or> stars_h3_2 = Some [] then None else stars_h3_2)"

definition h3_main ::
    "conv \<Rightarrow> cell \<Rightarrow> exc option \<Rightarrow> bool \<Rightarrow> exc + string list \<Rightarrow> csv_event list
      \<Rightarrow> int \<Rightarrow> int \<Rightarrow> int \<Rightarrow> bool \<Rightarrow> (star list \<times> star list \<times> star list option) run" where
  "h3_main cv cl db_fail file_exists header file skip lvl_0_count lvl_1_count include_rest =
     bind (validate_csv_file file_exists header required_columns) (\<lambda>_.
     bind (h3_read_and_sort_stars file) (\<lambda>all_stars.
     bind (h3_route cv cl all_stars skip lvl_0_count lvl_1_count include_rest) (\<lambda>t.
       h3_create_sqlite_database db_fail (fst t) (fst (snd t)) (snd (snd t)))))"

section \<open>The star-info script\<close>



definition int_columns :: "string list" where
  "int_columns = [''hip'', ''hd'', ''hr'', ''comp'', ''comp_primary'', ''flam'']"

definition real_columns :: "string list" where
  "real_columns = [''mag'', ''absmag'', ''ci'', ''lum'', ''var_min'', ''var_max'']"

datatype pyval = PyNone | PyInt int | PyFloat pyfloat | PyStr string

text \<open>The value stored for a column; \<open>None\<close> is the \<open>ValueError\<close> of \<open>int\<close> or \<open>float\<close>.\<close>

definition coerce :: "string \<Rightarrow> string \<Rightarrow> pyval option" where
  "coerce col v =
     (if col = ''id'' then (if v \<noteq> [] then map_option PyInt (py_int v) else Some PyNone)
      else if col \<in> set int_columns
        then (if v \<noteq> [] \<and> strip v \<noteq> [] then map_option PyInt (py_int v) else Some PyNone)
      else if col \<in> set real_columns
        then (if v \<noteq> [] \<and> strip v \<noteq> [] then map_option PyFloat (py_float v) else Some PyNone)
      else (if v \<noteq> [] \<and> strip v \<noteq> [] then Some (PyStr v) else Some PyNone))"

text \<open>
  A star of this script is a dictionary from column to value, kept as an association list
  in insertion order; \<open>build_star\<close> is the loop \<^verbatim>\<open>for col in included_columns\<close>.
\<close>

type_synonym info_star = "(string \<times> pyval) list"

fun build_star :: "csv_row \<Rightarrow> info_star \<Rightarrow> string list \<Rightarrow> info_star option" where
  "build_star row star [] = Some star"
| "build_star row star (col # cols) =
     (case coerce col (row col) of
        None \<Rightarrow> None
      | Some v \<Rightarrow> build_star row (AList.update col v star) cols)"

definition info_row :: "string list \<Rightarrow> nat \<Rightarrow> csv_row \<Rightarrow> info_star option run" where
  "info_row included_columns row_num row =
     (case build_star row [] included_columns of
        None \<Rightarrow> ([Warn_invalid_row row_num], Inr None)
      | Some star \<Rightarrow>
          (case map_of star ''id'' of
             None \<Rightarrow> ([], Inl KeyError)
           | Some PyNone \<Rightarrow> ([Warn_no_id row_num], Inr None)
           | Some v \<Rightarrow> ([], Inr (Some star))))"

text \<open>The loop \<^verbatim>\<open>for row_num, row in enumerate(reader, start=...)\<close>.\<close>

fun read_numbered_rows ::
    "(nat \<Rightarrow> csv_row \<Rightarrow> 'a option run) \<Rightarrow> nat \<Rightarrow> csv_event list \<Rightarrow> 'a list run" where
  "read_numbered_rows body n [] = ([], Inr [])"
| "read_numbered_rows body n (ReadError e # rest) = ([], Inl e)"
| "read_numbered_rows body n (Row r # rest) =
     bind (body n r) (\<lambda>s. bind (read_numbered_rows body (Suc n) rest) (\<lambda>stars.
       ([], Inr ((case s of None \<Rightarrow> [] | Some a \<Rightarrow> [a]) @ stars))))"

definition read_stars :: "csv_event list \<Rightarrow> string list \<Rightarrow> info_star list run" where
  "read_stars file included_columns =
     except_exit Error_reading_csv (read_numbered_rows (info_row included_columns) 2 file)"

definition column_definition :: "string \<Rightarrow> string" where
  "column_definition col =
     (if col = ''id'' then col @ '' INTEGER PRIMARY KEY''
      else if col \<in> set int_columns then col @ '' INTEGER''
      else if col \<in> set real_columns then col @ '' REAL''
      else col @ '' TEXT'')"

text \<open>\<^verbatim>\<open>[star.get(col) for col in included_columns]\<close>\<close>

definition insert_values :: "info_star \<Rightarrow> string list \<Rightarrow> pyval list" where
  "insert_values star included_columns =
     map (\<lambda>col. case map_of star col of None \<Rightarrow> PyNone | Some v \<Rightarrow> v) included_columns"

text \<open>
  What SQLite does with \<^verbatim>\<open>INSERT OR REPLACE\<close> on a table whose one key is the
  \<^verbatim>\<open>INTEGER PRIMARY KEY\<close> column \<open>id\<close>: a row with the same key is deleted before the
  new row goes in, and a null key is given the next free row number. A table is the list
  of its rows.
\<close>

definition row_key :: "string list \<Rightarrow> pyval list \<Rightarrow> pyval option" where
  "row_key cols vals = map_of (zip cols vals) ''id''"

definition int_keys :: "string list \<Rightarrow> pyval list list \<Rightarrow> int list" where
  "int_keys cols tbl =
     List.map_filter (\<lambda>r. case row_key cols r of Some (PyInt k) \<Rightarrow> Some k | _ \<Rightarrow> None) tbl"

definition next_rowid :: "string list \<Rightarrow> pyval list list \<Rightarrow> int" where
  "next_rowid cols tbl = (if int_keys cols tbl = [] then 1 else Max (set (int_keys cols tbl)) + 1)"

definition set_key :: "string list \<Rightarrow> pyval list \<Rightarrow> pyval \<Rightarrow> pyval list" where
  "set_key cols vals k = map (\<lambda>(c, v). if c = ''id'' then k else v) (zip cols vals)"

definition insert_or_replace ::
    "string list \<Rightarrow> pyval list list \<Rightarrow> pyval list \<Rightarrow> pyval list list" where
  "insert_or_replace cols tbl vals =
     (case row_key cols vals of
        Some (PyInt k) \<Rightarrow> filter (\<lambda>r. row_key cols r \<noteq> Some (PyInt k)) tbl @ [vals]
      | Some PyNone \<Rightarrow> tbl @ [set_key cols vals (PyInt (next_rowid cols tbl))]
      | _ \<Rightarrow> tbl @ [vals])"

text \<open>The table \<open>stars_info\<close>: its column definitions and its rows.\<close>

definition info_create_sqlite_database ::
    "exc option \<Rightarrow> info_star list \<Rightarrow> string list \<Rightarrow> (string list \<times> pyval list list) run" where
  "info_create_sqlite_database db_fail stars included_columns =
     db_block db_fail
       (map column_definition included_columns,
        foldl (insert_or_replace included_columns) []
          (map (\<lambda>star. insert_values star included_columns) stars))"


section \<open>The dump utility\<close>








section \<open>The schema inspector\<close>


section \<open>Notions used to state the properties\<close>

text \<open>
  \<open>process_list\<close> runs the body of the loop of \<open>process_stars_with_h3\<close> over a list of
  stars; \<open>located\<close> is the star with its cell, when the body appends one.
  \<open>route_indices\<close> gives the index ranges of the three tables for a sorted list of \<open>n\<close>
  stars: \<open>[skip, skip + lvl_0_count)\<close>, \<open>[skip + lvl_0_count, skip + lvl_0_count +
  lvl_1_count)\<close> and the rest, each clamped to \<open>n\<close>.
\<close>

fun process_list :: "conv \<Rightarrow> cell \<Rightarrow> nat \<Rightarrow> star list \<Rightarrow> star list run" where
  "process_list cv cl res [] = ([], Inr [])"
| "process_list cv cl res (s # ss) =
     bind (process_star cv cl res s) (\<lambda>p.
     bind (process_list cv cl res ss) (\<lambda>ps.
       ([], Inr ((case p of None \<Rightarrow> [] | Some a \<Rightarrow> [a]) @ ps))))"

definition located :: "conv \<Rightarrow> cell \<Rightarrow> nat \<Rightarrow> star \<Rightarrow> star option" where
  "located cv cl res s = (case snd (process_star cv cl res s) of Inr p \<Rightarrow> p | Inl e \<Rightarrow> None)"

definition route_indices :: "nat \<Rightarrow> int \<Rightarrow> int \<Rightarrow> int \<Rightarrow> nat list \<times> nat list \<times> nat list" where
  "route_indices n skip lvl_0_count lvl_1_count =
     ([nat skip ..< min (nat (skip + lvl_0_count)) n],
      [nat (skip + lvl_0_count) ..< min (nat (skip + lvl_0_count + lvl_1_count)) n],
      [nat (skip + lvl_0_count + lvl_1_count) ..< n])"

text \<open>
  A row is retained when the body of the loop appends a record for it. A field is a
  present number when it is not empty and \<open>float\<close> accepts it. \<open>xyz_present\<close> is the
  condition of the specification; \<open>bad_number\<close> says that a numeric field of a row of the
  brightest-N and H3 scripts is there but does not parse, and \<open>bad_field\<close> the same for one
  column of the star-info script.
\<close>

definition retained :: "'a option run \<Rightarrow> bool" where
  "retained r = (case snd r of Inr (Some s) \<Rightarrow> True | _ \<Rightarrow> False)"




definition bad_field :: "string \<Rightarrow> string \<Rightarrow> bool" where
  "bad_field col v =
     (if col = ''id'' then v \<noteq> [] \<and> py_int v = None
      else if col \<in> set int_columns then strip v \<noteq> [] \<and> py_int v = None
      else if col \<in> set real_columns then strip v \<noteq> [] \<and> py_float v = None
      else False)"

text \<open>
  The column types of the specification: the integer allow-list with \<open>id\<close>, the real
  allow-list, and text for every other column; and the type of a stored value (none for
  \<open>None\<close>, which is stored as \<open>NULL\<close>).
\<close>

datatype sql_type = INTEGER | REAL | TEXT

definition column_type :: "string \<Rightarrow> sql_type" where
  "column_type col =
     (if col \<in> set (''id'' # int_columns) then INTEGER
      else if col \<in> set real_columns then REAL else TEXT)"

fun type_name :: "sql_type \<Rightarrow> string" where
  "type_name INTEGER = ''INTEGER''"
| "type_name REAL = ''REAL''"
| "type_name TEXT = ''TEXT''"

fun value_type :: "pyval \<Rightarrow> sql_type option" where
  "value_type PyNone = None"
| "value_type (PyInt i) = Some INTEGER"
| "value_type (PyFloat f) = Some REAL"
| "value_type (PyStr s) = Some TEXT"


section \<open>A small catalogue\<close>

text \<open>
  Rows and stars to run the scripts on. For the two parameters, every vector is taken to
  convert to latitude 0 and longitude 0 (as the unit vector \<open>(1, 0, 0)\<close> of all these rows
  does), and the library to return a cell named after the resolution.
\<close>

definition row_of ::
    "string \<Rightarrow> string \<Rightarrow> string \<Rightarrow> string \<Rightarrow> string \<Rightarrow> string \<Rightarrow> csv_row" where
  "row_of i m a b c sp =
     (\<lambda>col. if col = ''id'' then i else if col = ''mag'' then m else if col = ''x'' then a
            else if col = ''y'' then b else if col = ''z'' then c
            else if col = ''spect'' then sp else [])"

definition star_of :: "int \<Rightarrow> pyfloat \<Rightarrow> char \<Rightarrow> star" where
  "star_of i m c =
     \<lparr>star_id = Some i, star_mag = m, star_x = Some (Fin 1), star_y = Some (Fin 0),
      star_z = Some (Fin 0), spect_class = Some c, h3_cell = None\<rparr>"

definition ex_conv :: conv where
  "ex_conv a b c = Inr (Some (Fin 0, Fin 0))"

definition ex_cell :: cell where
  "ex_cell lat lon res = Some (''cell-'' @ [char_of (48 + res)])"

definition with_cell :: "nat \<Rightarrow> star \<Rightarrow> star" where
  "with_cell res s = s\<lparr>h3_cell := map_option (Pair res) (ex_cell (Fin 0) (Fin 0) res)\<rparr>"

definition ex_file :: "csv_event list" where
  "ex_file =
     [Row (row_of ''1'' '''' ''1'' ''0'' ''0'' ''G2V''),
      Row (row_of ''2'' ''2.5'' ''1'' ''0'' ''0'' ''sdM4''),
      Row (row_of ''3'' ''-1.5'' ''1'' ''0'' ''0'' ''A1V''),
      Row (row_of ''x'' ''0.5'' ''1'' ''0'' ''0'' ''K0''),
      Row (row_of ''5'' ''2.5'' ''1'' ''0'' ''0'' ''DA2'')]"


definition ex_sorted :: "star list" where
  "ex_sorted = [star_of 3 (Fin (- (3/2))) CHR ''A'', star_of 2 (Fin (5/2)) CHR ''M'',
                star_of 5 (Fin (5/2)) CHR ''A'', star_of 1 PInf CHR ''G'']"













section \<open>Properties of the spectral class\<close>

lemma first_upper_find: "first_upper cs = List.find isupper cs"
  by (induction cs) simp_all

lemma of_char_lower_char:
  "(of_char (lower_char a) :: nat) = (if isupper a then of_char a + 32 else of_char a)"
  by (simp add: lower_char_def isupper_def Let_def)

lemma lower_char_s: "lower_char a = CHR ''s'' \<longleftrightarrow> a = CHR ''s'' \<or> a = CHR ''S''"
proof -
  have "lower_char a = CHR ''s'' \<longleftrightarrow> (of_char (lower_char a) :: nat) = of_char CHR ''s''"
    by (simp only: of_char_eq_iff)
  also have "\<dots> \<longleftrightarrow> (of_char a :: nat) = of_char CHR ''s'' \<or> (of_char a :: nat) = of_char CHR ''S''"
    by (auto simp: of_char_lower_char isupper_def Let_def)
  also have "\<dots> \<longleftrightarrow> a = CHR ''s'' \<or> a = CHR ''S''"
    by (simp only: of_char_eq_iff)
  finally show ?thesis .
qed

lemma lower_char_d: "lower_char a = CHR ''d'' \<longleftrightarrow> a = CHR ''d'' \<or> a = CHR ''D''"
proof -
  have "lower_char a = CHR ''d'' \<longleftrightarrow> (of_char (lower_char a) :: nat) = of_char CHR ''d''"
    by (simp only: of_char_eq_iff)
  also have "\<dots> \<longleftrightarrow> (of_char a :: nat) = of_char CHR ''d'' \<or> (of_char a :: nat) = of_char CHR ''D''"
    by (auto simp: of_char_lower_char isupper_def Let_def)
  also have "\<dots> \<longleftrightarrow> a = CHR ''d'' \<or> a = CHR ''D''"
    by (simp only: of_char_eq_iff)
  finally show ?thesis .
qed

lemma prefix_branches:
  "(if startswith (lower t) ''sd'' \<and> length t > 2 then first_upper (drop 2 t)
    else if startswith (lower t) ''d'' \<and> length t > 1 then first_upper (drop 1 t)
    else first_upper t) = List.find isupper (drop_known_prefix t)"
  by (cases t rule: drop_known_prefix.cases)
     (simp_all add: startswith_def lower_def lower_char_s lower_char_d first_upper_find)

lemma strip_Nil: "strip [] = []"
  by (simp add: strip_def)

text \<open>
  C1, as the code has it. After surrounding whitespace is stripped, the prefix test ignores
  case and asks for something after the prefix: the first two characters go when they are
  \<open>s\<close>/\<open>S\<close> then \<open>d\<close>/\<open>D\<close> and the text is longer than two characters; otherwise the first
  character goes when it is \<open>d\<close>/\<open>D\<close> and the text is longer than one character; otherwise
  nothing goes. The result is the first uppercase letter of what is left, and it is none
  exactly when what is left has no uppercase letter (so for an empty or all-whitespace
  input).
\<close>

theorem extract_spectral_class_rule:
  "extract_spectral_class s = List.find isupper (drop_known_prefix (strip s))
   \<and> (extract_spectral_class s = None \<longleftrightarrow>
        (\<forall>c \<in> set (drop_known_prefix (strip s)). \<not> isupper c))"
proof -
  have eq: "extract_spectral_class s = List.find isupper (drop_known_prefix (strip s))"
  proof (cases "strip s = []")
    case True
    then show ?thesis by (simp add: extract_spectral_class_def)
  next
    case False
    then have "s \<noteq> []" using strip_Nil by auto
    with False show ?thesis
      using prefix_branches [of "strip s"] by (simp add: extract_spectral_class_def Let_def)
  qed
  then show ?thesis by (auto simp: find_None_iff)
qed

theorem extract_spectral_class_rule_witness:
  "extract_spectral_class '' Sd K5 '' = Some CHR ''K''
   \<and> extract_spectral_class ''sd'' = None \<and> extract_spectral_class ''  '' = None"
  using extract_spectral_class_rule [of "'' Sd K5 ''"] extract_spectral_class_rule [of "''sd''"]
    extract_spectral_class_rule [of "''  ''"]
  by (simp add: strip_def isspace_def isupper_def)

text \<open>
  C1 as the specification states it fails on the white-dwarf type \<open>DA2\<close>: the text does not
  begin with the prefix \<open>d\<close>, so its first uppercase letter is \<open>D\<close>, but the code takes the
  \<open>D\<close> for the prefix and answers \<open>A\<close>.
\<close>

theorem extract_spectral_class_literal_prefix_counterexample:
  "extract_spectral_class ''DA2'' = Some CHR ''A''
   \<and> spec_spectral_class ''DA2'' = Some CHR ''D''
   \<and> extract_spectral_class ''DA2'' \<noteq> spec_spectral_class ''DA2''"
  by code_simp

section \<open>Sorting by magnitude\<close>



















section \<open>Runs\<close>

lemma bind_Inr: "bind (out, Inr a) f = (out @ fst (f a), snd (f a))"
  by (simp add: bind_def split: prod.splits)



section \<open>The sorted list of the retained stars\<close>







section \<open>The brightest N\<close>






section \<open>The loops over rows and indices\<close>











lemma bind_eq_Inr:
  "bind m f = (out, Inr b) \<longleftrightarrow> (\<exists>o1 a o2. m = (o1, Inr a) \<and> f a = (o2, Inr b) \<and> out = o1 @ o2)"
  by (cases m; cases "snd m") (auto simp: bind_def split: prod.splits sum.splits)

lemma index_nat: "i < length xs \<Longrightarrow> index xs (int i) = Inr (xs ! i)"
  by (simp add: index_def)

lemma process_indices_nat:
  "\<forall>i \<in> set is. i < length stars \<Longrightarrow>
   process_indices cv cl res stars (map int is) = process_list cv cl res (map ((!) stars) is)"
  by (induction "is") (simp_all add: index_nat bind_Inr)

lemma upto_map_int: "[int a .. int b - 1] = map int [a..<b]"
proof (induction b)
  case 0
  then show ?case by simp
next
  case (Suc b)
  show ?case
  proof (cases "a \<le> b")
    case True
    then have "[int a .. int (Suc b) - 1] = [int a .. int b - 1] @ [int b]"
      using upto_rec2 [of "int a" "int b"] by simp
    with Suc True show ?thesis by simp
  next
    case False
    then show ?thesis by simp
  qed
qed

lemma process_stars_with_h3_range:
  assumes "0 \<le> start" "0 \<le> cnt"
  shows "process_stars_with_h3 cv cl stars start cnt res
     = process_list cv cl res
         (map ((!) stars) [nat start ..< min (nat (start + cnt)) (length stars)])"
proof -
  have "min (start + cnt) (int (length stars)) = int (min (nat (start + cnt)) (length stars))"
    using assms by auto
  moreover have "start = int (nat start)" using assms by simp
  ultimately have "[start .. min (start + cnt) (int (length stars)) - 1]
      = map int [nat start ..< min (nat (start + cnt)) (length stars)]"
    using upto_map_int [of "nat start" "min (nat (start + cnt)) (length stars)"] by simp
  then show ?thesis
    by (simp add: process_stars_with_h3_def Let_def process_indices_nat)
qed

lemma process_list_located:
  "process_list cv cl res seg = (out, Inr t) \<Longrightarrow> t = List.map_filter (located cv cl res) seg"
proof (induction seg arbitrary: out t)
  case Nil
  then show ?case by (simp add: map_filter_simps)
next
  case (Cons s ss)
  from Cons.prems obtain o1 p o2 ps where
    p: "process_star cv cl res s = (o1, Inr p)" and ps: "process_list cv cl res ss = (o2, Inr ps)"
    and t: "t = (case p of None \<Rightarrow> [] | Some a \<Rightarrow> [a]) @ ps"
    by (auto simp: bind_eq_Inr)
  from Cons.IH [OF ps] have "ps = List.map_filter (located cv cl res) ss" .
  moreover from p have "located cv cl res s = p" by (simp add: located_def)
  ultimately show ?case using t by (simp add: map_filter_simps split: option.splits)
qed

lemma located_cell:
  "located cv cl res s = Some s' \<Longrightarrow> \<exists>h. s' = s\<lparr>h3_cell := Some (res, h)\<rparr>"
  by (auto simp: located_def process_star_def split: option.splits sum.splits prod.splits)

lemma distinct_ranges:
  "b0 \<le> a1 \<Longrightarrow> a1 \<le> a2 \<Longrightarrow> b1 \<le> a2 \<Longrightarrow> distinct ([a0..<b0] @ [a1..<b1] @ [a2..<b2::nat])"
  by auto

section \<open>Which rows are retained\<close>












section \<open>The star-info script: rows and table\<close>

lemma strip_nonempty: "strip v \<noteq> [] \<Longrightarrow> v \<noteq> []"
  by (auto simp: strip_def)

lemma coerce_None: "coerce col v = None \<longleftrightarrow> bad_field col v"
  using strip_nonempty [of v] by (auto simp: coerce_def bad_field_def)

lemma coerce_typed:
  "coerce col v = Some w \<Longrightarrow> w = PyNone \<or> value_type w = Some (column_type col)"
  by (auto simp: coerce_def column_type_def split: if_splits)

lemma id_not_listed: "''id'' \<notin> set int_columns" "''id'' \<notin> set real_columns"
  by (simp_all add: int_columns_def real_columns_def)

lemma int_not_real: "col \<in> set int_columns \<Longrightarrow> col \<notin> set real_columns"
  by (auto simp: int_columns_def real_columns_def)

lemma column_definition_type:
  "column_definition col
     = col @ '' '' @ type_name (column_type col) @ (if col = ''id'' then '' PRIMARY KEY'' else [])"
  by (simp add: column_definition_def column_type_def)

lemma build_star_None:
  "build_star row star cols = None \<longleftrightarrow> (\<exists>c \<in> set cols. bad_field c (row c))"
  by (induction cols arbitrary: star) (auto simp: coerce_None [symmetric] split: option.splits)

lemma build_star_map_of:
  "build_star row star cols = Some star' \<Longrightarrow>
     map_of star' k = (if k \<in> set cols then coerce k (row k) else map_of star k)"
proof (induction cols arbitrary: star)
  case Nil
  then show ?case by simp
next
  case (Cons c cols)
  from Cons.prems obtain v where v: "coerce c (row c) = Some v"
    and b: "build_star row (AList.update c v star) cols = Some star'"
    by (auto split: option.splits)
  from Cons.IH [OF b] v show ?case by (auto simp: update_conv')
qed


lemma retained_info:
  "retained (info_row cols n row) \<longleftrightarrow>
     ''id'' \<in> set cols \<and> row ''id'' \<noteq> [] \<and> (\<forall>c \<in> set cols. \<not> bad_field c (row c))"
proof (cases "build_star row [] cols")
  case None
  then show ?thesis
    using build_star_None [of row "[]" cols] by (auto simp: info_row_def retained_def)
next
  case (Some star)
  then have ok: "\<forall>c \<in> set cols. \<not> bad_field c (row c)"
    using build_star_None [of row "[]" cols] by auto
  have m: "map_of star ''id'' = (if ''id'' \<in> set cols then coerce ''id'' (row ''id'') else None)"
    using build_star_map_of [OF Some, of "''id''"] by simp
  show ?thesis
  proof (cases "''id'' \<in> set cols")
    case True
    with ok have "\<not> bad_field ''id'' (row ''id'')" by blast
    then have "row ''id'' = [] \<or> (\<exists>k. py_int (row ''id'') = Some k)"
      by (auto simp: bad_field_def)
    with m True ok Some show ?thesis
      by (auto simp: info_row_def retained_def coerce_def split: option.splits pyval.splits)
  next
    case False
    with m Some show ?thesis by (simp add: info_row_def retained_def)
  qed
qed

lemma info_row_Some:
  assumes "info_row cols n row = (w, Inr (Some star))"
  shows "\<exists>k. py_int (row ''id'') = Some k \<and> map_of star ''id'' = Some (PyInt k)"
    and "\<forall>col \<in> set cols. map_of star col = coerce col (row col) \<and> coerce col (row col) \<noteq> None"
proof -
  from assms have b: "build_star row [] cols = Some star"
    by (auto simp: info_row_def split: option.splits pyval.splits)
  from assms have r: "retained (info_row cols n row)" by (simp add: retained_def)
  then have i: "''id'' \<in> set cols" "row ''id'' \<noteq> []" "\<not> bad_field ''id'' (row ''id'')"
    by (auto simp: retained_info)
  then obtain k where k: "py_int (row ''id'') = Some k" by (auto simp: bad_field_def)
  with i build_star_map_of [OF b, of "''id''"]
  show "\<exists>k. py_int (row ''id'') = Some k \<and> map_of star ''id'' = Some (PyInt k)"
    by (simp add: coerce_def)
  from r have "\<forall>c \<in> set cols. \<not> bad_field c (row c)" by (simp add: retained_info)
  then show "\<forall>col \<in> set cols. map_of star col = coerce col (row col) \<and> coerce col (row col) \<noteq> None"
    using build_star_map_of [OF b] by (simp add: coerce_None)
qed




lemma read_numbered_rows_stars:
  "read_numbered_rows (info_row cols) n evs = (out, Inr stars) \<Longrightarrow>
     \<forall>star \<in> set stars. \<exists>w k row. info_row cols k row = (w, Inr (Some star))"
proof (induction evs arbitrary: n out stars)
  case Nil
  then show ?case by simp
next
  case (Cons x xs)
  show ?case
  proof (cases x)
    case (Row r)
    with Cons.prems obtain o1 p o2 ps where
      p: "info_row cols n r = (o1, Inr p)"
      and ps: "read_numbered_rows (info_row cols) (Suc n) xs = (o2, Inr ps)"
      and s: "stars = (case p of None \<Rightarrow> [] | Some a \<Rightarrow> [a]) @ ps"
      by (auto simp: bind_eq_Inr)
    from Cons.IH [OF ps] p s show ?thesis by (auto split: option.splits)
  next
    case (ReadError e)
    with Cons.prems show ?thesis by simp
  qed
qed




section \<open>The three tables of the H3 script\<close>

lemma h3_route_ranges:
  assumes "0 \<le> skip" "0 \<le> l0" "0 \<le> l1"
    and "h3_route cv cl all_stars skip l0 l1 include_rest = (out, Inr (t0, t1, t2))"
    and "route_indices (length all_stars) skip l0 l1 = (i0, i1, i2)"
  shows "distinct (i0 @ i1 @ i2)
    \<and> (\<forall>i \<in> set (i0 @ i1 @ i2). i < length all_stars)
    \<and> t0 = List.map_filter (located cv cl 0) (map ((!) all_stars) i0)
    \<and> t1 = List.map_filter (located cv cl 1) (map ((!) all_stars) i1)
    \<and> t2 = (if include_rest \<and> i2 \<noteq> []
             then Some (List.map_filter (located cv cl 2) (map ((!) all_stars) i2)) else None)
    \<and> (\<forall>res s s'. located cv cl res s = Some s' \<longrightarrow> (\<exists>h. s' = s\<lparr>h3_cell := Some (res, h)\<rparr>))"
proof -
  let ?n = "length all_stars"
  have i0: "i0 = [nat skip ..< min (nat (skip + l0)) ?n]"
    and i1: "i1 = [nat (skip + l0) ..< min (nat (skip + l0 + l1)) ?n]"
    and i2: "i2 = [nat (skip + l0 + l1) ..< ?n]"
    using assms(5) by (simp_all add: route_indices_def)
  have d: "distinct (i0 @ i1 @ i2)"
    unfolding i0 i1 i2 using assms(1-3) by (intro distinct_ranges) auto
  have b: "\<forall>i \<in> set (i0 @ i1 @ i2). i < ?n"
    unfolding i0 i1 i2 by auto
  have p0: "process_stars_with_h3 cv cl all_stars skip l0 0
      = process_list cv cl 0 (map ((!) all_stars) i0)"
    unfolding i0 using assms(1,2) by (rule process_stars_with_h3_range)
  have p1: "process_stars_with_h3 cv cl all_stars (skip + l0) l1 1
      = process_list cv cl 1 (map ((!) all_stars) i1)"
    unfolding i1 using assms(1-3) by (intro process_stars_with_h3_range) auto
  have p2: "process_stars_with_h3 cv cl all_stars (skip + l0 + l1) (int ?n - (skip + l0 + l1)) 2
      = process_list cv cl 2 (map ((!) all_stars) i2)"
    if "0 < int ?n - (skip + l0 + l1)"
  proof -
    have "process_stars_with_h3 cv cl all_stars (skip + l0 + l1) (int ?n - (skip + l0 + l1)) 2
      = process_list cv cl 2 (map ((!) all_stars)
          [nat (skip + l0 + l1) ..< min (nat (skip + l0 + l1 + (int ?n - (skip + l0 + l1)))) ?n])"
      using that assms(1-3) by (intro process_stars_with_h3_range) auto
    then show ?thesis by (simp add: i2)
  qed
  have e2: "i2 \<noteq> [] \<longleftrightarrow> 0 < int ?n - (skip + l0 + l1)"
    unfolding i2 using assms(1-3) by auto
  from assms(4) have ne: "all_stars \<noteq> []"
    by (auto simp: h3_route_def)
  from assms(4) ne obtain o0 o1 o2 r where
    r0: "process_stars_with_h3 cv cl all_stars skip l0 0 = (o0, Inr t0)"
    and r1: "process_stars_with_h3 cv cl all_stars (skip + l0) l1 1 = (o1, Inr t1)"
    and r2: "(if include_rest
              then (let lvl_2_start = skip + l0 + l1;
                        remaining_count = int ?n - lvl_2_start
                    in if 0 < remaining_count
                       then bind (process_stars_with_h3 cv cl all_stars lvl_2_start
                                    remaining_count 2) (\<lambda>r. ([], Inr (Some r)))
                       else ([No_remaining_stars], Inr None))
              else ([], Inr None)) = (o2, Inr t2)"
    by (auto simp: h3_route_def Let_def bind_eq_Inr split: if_splits)
  have t0: "t0 = List.map_filter (located cv cl 0) (map ((!) all_stars) i0)"
    using r0 p0 by (metis process_list_located)
  have t1: "t1 = List.map_filter (located cv cl 1) (map ((!) all_stars) i1)"
    using r1 p1 by (metis process_list_located)
  have t2: "t2 = (if include_rest \<and> i2 \<noteq> []
             then Some (List.map_filter (located cv cl 2) (map ((!) all_stars) i2)) else None)"
  proof (cases "include_rest \<and> i2 \<noteq> []")
    case True
    with e2 have pos: "0 < int ?n - (skip + l0 + l1)" by simp
    with r2 True obtain o3 r where
      "process_stars_with_h3 cv cl all_stars (skip + l0 + l1) (int ?n - (skip + l0 + l1)) 2
         = (o3, Inr r)" and "t2 = Some r"
      by (auto simp: Let_def bind_eq_Inr)
    with p2 [OF pos] True show ?thesis by (metis process_list_located)
  next
    case False
    with r2 e2 show ?thesis by (auto simp: Let_def split: if_splits)
  qed
  have c: "\<forall>res s s'. located cv cl res s = Some s' \<longrightarrow> (\<exists>h. s' = s\<lparr>h3_cell := Some (res, h)\<rparr>)"
    using located_cell by blast
  show ?thesis using d b t0 t1 t2 c by blast
qed

lemma validate_Inr:
  "validate_csv_file fe hdr req = (out, Inr cols) \<Longrightarrow> out = [] \<and> hdr = Inr cols"
  by (cases hdr) (auto simp: validate_csv_file_def except_exit_def split: if_splits)

text \<open>
  C7, as the code has it. For \<open>skip\<close>, \<open>lvl_0_count\<close> and \<open>lvl_1_count\<close> that are not
  negative, the stars of the three tables are taken, in order, from three index ranges of
  the sorted list, \<open>[skip, skip + lvl_0_count)\<close>, \<open>[skip + lvl_0_count, skip + lvl_0_count
  + lvl_1_count)\<close> and the rest, each clamped to the length of the list; the third table
  is filled only with \<open>--include-rest\<close> and a non-empty rest. The indices of the three
  ranges are pairwise different, so no position of the sorted list reaches two tables; a
  star reaches its table unchanged but for the cell it is given, or not at all when it has
  no cell. The third table is created only when a star reaches it.
\<close>

theorem h3_tables_disjoint_ranges:
  assumes "0 \<le> skip" "0 \<le> l0" "0 \<le> l1"
    and "h3_main cv cl None file_exists header file skip l0 l1 include_rest
           = (out, Inr (table_0, table_1, table_2))"
  shows "\<exists>out' all_stars i0 i1 i2.
      h3_read_and_sort_stars file = (out', Inr all_stars)
    \<and> route_indices (length all_stars) skip l0 l1 = (i0, i1, i2)
    \<and> distinct (i0 @ i1 @ i2)
    \<and> (\<forall>i \<in> set (i0 @ i1 @ i2). i < length all_stars)
    \<and> table_0 = List.map_filter (located cv cl 0) (map ((!) all_stars) i0)
    \<and> table_1 = List.map_filter (located cv cl 1) (map ((!) all_stars) i1)
    \<and> table_2 = (if include_rest \<and> List.map_filter (located cv cl 2) (map ((!) all_stars) i2) \<noteq> []
                 then Some (List.map_filter (located cv cl 2) (map ((!) all_stars) i2)) else None)
    \<and> (\<forall>res s s'. located cv cl res s = Some s' \<longrightarrow> (\<exists>h. s' = s\<lparr>h3_cell := Some (res, h)\<rparr>))"
proof -
  from assms(4) obtain o0 cols o1 all_stars o2 t o3 where
    "validate_csv_file file_exists header required_columns = (o0, Inr cols)"
    and rd: "h3_read_and_sort_stars file = (o1, Inr all_stars)"
    and rt: "h3_route cv cl all_stars skip l0 l1 include_rest = (o2, Inr t)"
    and cr: "h3_create_sqlite_database None (fst t) (fst (snd t)) (snd (snd t))
               = (o3, Inr (table_0, table_1, table_2))"
    unfolding h3_main_def bind_eq_Inr by blast
  obtain t0 t1 t2 where t: "t = (t0, t1, t2)" by (cases t) auto
  obtain i0 i1 i2 where ri: "route_indices (length all_stars) skip l0 l1 = (i0, i1, i2)"
    by (cases "route_indices (length all_stars) skip l0 l1") auto
  from cr t have tabs: "table_0 = t0" "table_1 = t1"
    "table_2 = (if t2 = None \<or> t2 = Some [] then None else t2)"
    by (auto simp: h3_create_sqlite_database_def db_block_def except_exit_def)
  note R = h3_route_ranges [OF assms(1-3) rt [unfolded t] ri]
  from R have d: "distinct (i0 @ i1 @ i2)" and b: "\<forall>i \<in> set (i0 @ i1 @ i2). i < length all_stars"
    and e0: "t0 = List.map_filter (located cv cl 0) (map ((!) all_stars) i0)"
    and e1: "t1 = List.map_filter (located cv cl 1) (map ((!) all_stars) i1)"
    and e2: "t2 = (if include_rest \<and> i2 \<noteq> []
             then Some (List.map_filter (located cv cl 2) (map ((!) all_stars) i2)) else None)"
    and c: "\<forall>res s s'. located cv cl res s = Some s' \<longrightarrow> (\<exists>h. s' = s\<lparr>h3_cell := Some (res, h)\<rparr>)"
    by blast+
  have T2: "table_2 = (if include_rest \<and> List.map_filter (located cv cl 2) (map ((!) all_stars) i2) \<noteq> []
                 then Some (List.map_filter (located cv cl 2) (map ((!) all_stars) i2)) else None)"
    using tabs(3) e2 by (auto simp: map_filter_simps)
  show ?thesis
    using rd ri d b e0 e1 T2 c tabs(1,2) by blast
qed

lemma ex_h3_main:
  "h3_main ex_conv ex_cell None True (Inr required_columns) ex_file 1 1 1 True
     = ([Warn_invalid_data, Success],
        Inr ([with_cell 0 (star_of 2 (Fin (5/2)) CHR ''M'')],
             [with_cell 1 (star_of 5 (Fin (5/2)) CHR ''A'')],
             Some [with_cell 2 (star_of 1 PInf CHR ''G'')]))"
  by code_simp

theorem h3_tables_disjoint_ranges_witness:
  "\<exists>out' all_stars i0 i1 i2.
      h3_read_and_sort_stars ex_file = (out', Inr all_stars)
    \<and> route_indices (length all_stars) 1 1 1 = (i0, i1, i2)
    \<and> distinct (i0 @ i1 @ i2)
    \<and> [with_cell 0 (star_of 2 (Fin (5/2)) CHR ''M'')]
        = List.map_filter (located ex_conv ex_cell 0) (map ((!) all_stars) i0)
    \<and> [with_cell 1 (star_of 5 (Fin (5/2)) CHR ''A'')]
        = List.map_filter (located ex_conv ex_cell 1) (map ((!) all_stars) i1)"
proof -
  have "(0::int) \<le> 1" by simp
  from h3_tables_disjoint_ranges [OF this this this ex_h3_main]
  show ?thesis by blast
qed

text \<open>
  C7 as the specification states it fails for \<open>--skip -1\<close>: the index \<open>-1\<close> is the last
  star of the sorted list, which goes to the first table, and it goes to the third table
  again with the rest.
\<close>

theorem h3_tables_negative_skip_counterexample:
  "h3_main ex_conv ex_cell None True (Inr required_columns) ex_file (- 1) 1 1 True
     = ([Warn_invalid_data, Success],
        Inr ([with_cell 0 (star_of 1 PInf CHR ''G'')],
             [with_cell 1 (star_of 3 (Fin (- (3/2))) CHR ''A'')],
             Some [with_cell 2 (star_of 2 (Fin (5/2)) CHR ''M''),
                   with_cell 2 (star_of 5 (Fin (5/2)) CHR ''A''),
                   with_cell 2 (star_of 1 PInf CHR ''G'')]))
   \<and> h3_read_and_sort_stars ex_file = ([Warn_invalid_data], Inr ex_sorted)
   \<and> index ex_sorted (- 1) = Inr (star_of 1 PInf CHR ''G'')
   \<and> index ex_sorted 3 = Inr (star_of 1 PInf CHR ''G'')"
  by code_simp

section \<open>The retained rows\<close>









section \<open>Rows that do not parse\<close>

















section \<open>Column types of the star-info table\<close>


text \<open>
  C8. The column definition of an included column is the column name followed by the
  type that the allow-lists give it (\<open>INTEGER\<close> for \<open>id\<close> and the integer allow-list,
  \<open>REAL\<close> for the real allow-list, \<open>TEXT\<close> for every other column), and \<open>PRIMARY KEY\<close>
  after it for \<open>id\<close>; these are the definitions of the created table. The value that
  reading a row stores for a column is \<open>None\<close> or a value of the column's type, for every
  column and text and so for every star that \<open>read_stars\<close> returns.
\<close>

theorem column_types_follow_allow_lists:
  "column_definition col
     = col @ '' '' @ type_name (column_type col) @ (if col = ''id'' then '' PRIMARY KEY'' else [])
   \<and> (\<forall>w. coerce col v = Some w \<longrightarrow> w = PyNone \<or> value_type w = Some (column_type col))
   \<and> (\<forall>out defs tbl. info_create_sqlite_database None stars cols = (out, Inr (defs, tbl)) \<longrightarrow>
         defs = map (\<lambda>c. c @ '' '' @ type_name (column_type c)
                            @ (if c = ''id'' then '' PRIMARY KEY'' else [])) cols)
   \<and> (\<forall>out stars'. read_stars evs cols = (out, Inr stars') \<longrightarrow>
         (\<forall>star \<in> set stars'. \<forall>c \<in> set cols.
            \<exists>w. map_of star c = Some w \<and> (w = PyNone \<or> value_type w = Some (column_type c))))"
proof -
  have defs: "defs = map (\<lambda>c. c @ '' '' @ type_name (column_type c)
                            @ (if c = ''id'' then '' PRIMARY KEY'' else [])) cols"
    if "info_create_sqlite_database None stars cols = (out, Inr (defs, tbl))" for out defs tbl
  proof -
    have "map column_definition cols = map (\<lambda>c. c @ '' '' @ type_name (column_type c)
                            @ (if c = ''id'' then '' PRIMARY KEY'' else [])) cols"
      by (rule map_cong) (simp_all add: column_definition_type)
    with that show ?thesis
      by (auto simp: info_create_sqlite_database_def db_block_def except_exit_def)
  qed
  have vals: "\<exists>w. map_of star c = Some w \<and> (w = PyNone \<or> value_type w = Some (column_type c))"
    if r: "read_stars evs cols = (out, Inr stars')" and s: "star \<in> set stars'" and c: "c \<in> set cols"
    for out stars' star c
  proof -
    from r obtain o' where "read_numbered_rows (info_row cols) 2 evs = (o', Inr stars')"
      by (cases "read_numbered_rows (info_row cols) 2 evs"; cases "snd (read_numbered_rows (info_row cols) 2 evs)")
         (auto simp: read_stars_def except_exit_def split: if_splits)
    from read_numbered_rows_stars [OF this] s obtain w k row where
      "info_row cols k row = (w, Inr (Some star))" by blast
    from info_row_Some(2) [OF this] c
    have "map_of star c = coerce c (row c)" "coerce c (row c) \<noteq> None" by simp_all
    then show ?thesis using coerce_typed [of c "row c"] by auto
  qed
  show ?thesis
    using column_definition_type [of col] coerce_typed [of col v] defs vals by blast
qed

lemma ex_coerce: "coerce ''hip'' ''32349'' = Some (PyInt 32349)"
  by code_simp

theorem column_types_follow_allow_lists_witness:
  "column_definition ''hip'' = ''hip INTEGER'' \<and> column_definition ''ci'' = ''ci REAL''
   \<and> column_definition ''proper'' = ''proper TEXT''
   \<and> column_definition ''id'' = ''id INTEGER PRIMARY KEY''
   \<and> coerce ''hip'' ''32349'' = Some (PyInt 32349)
   \<and> value_type (PyInt 32349) = Some (column_type ''hip'')"
  using column_types_follow_allow_lists [of "''hip''" "''32349''" "[]" "[]" "[]"] ex_coerce
    column_types_follow_allow_lists [of "''ci''" "[]" "[]" "[]" "[]"]
    column_types_follow_allow_lists [of "''proper''" "[]" "[]" "[]" "[]"]
    column_types_follow_allow_lists [of "''id''" "[]" "[]" "[]" "[]"]
  by (simp add: column_type_def int_columns_def real_columns_def)

section \<open>One row for each id\<close>








section \<open>Failures of the file and of the database\<close>









end
